theory Spec2Isabelle
  imports Main
begin

section \<open>Achievement Management System: a shallow embedding of app.py\<close>

text \<open>
  The handlers of \<^verbatim>\<open>app.py\<close> are embedded as functions on explicit state: the
  database (the three tables of \<^verbatim>\<open>models.py\<close>), the uploads directory and the
  session. A handler returns what it leaves behind and either a response or the
  exception that leaves the handler (\<open>Inl\<close>). Strings are byte strings; the
  character classes below are the ASCII ones.
\<close>

subsection \<open>Exceptions\<close>

datatype error =
    ValueError
  | OperationalError
  | IntegrityError
  | OverflowError
  | LibraryError

subsection \<open>Password security module\<close>

text \<open>
  \<^verbatim>\<open>generate_password_hash\<close> and \<^verbatim>\<open>check_password_hash\<close> are werkzeug's; the two
  wrappers take them as parameters. Either may raise. \<open>None\<close> is Python's \<^verbatim>\<open>None\<close>.
\<close>

type_synonym generate_password_hash = "string \<Rightarrow> error + string"
type_synonym check_password_hash = "string \<Rightarrow> string \<Rightarrow> error + bool"

definition hash_password :: "generate_password_hash \<Rightarrow> string option \<Rightarrow> error + string" where
  "hash_password gen plain_password =
     (case plain_password of
        None \<Rightarrow> Inl ValueError
      | Some p \<Rightarrow>
          if p = [] then Inl ValueError
          else (case gen p of Inl e \<Rightarrow> Inl e | Inr h \<Rightarrow> Inr h))"

definition verify_password ::
  "check_password_hash \<Rightarrow> string option \<Rightarrow> string option \<Rightarrow> error + bool" where
  "verify_password chk stored_hash provided_password =
     (case (stored_hash, provided_password) of
        (None, _) \<Rightarrow> Inr False
      | (_, None) \<Rightarrow> Inr False
      | (Some h, Some p) \<Rightarrow>
          if h = [] \<or> p = [] then Inr False
          else (case chk h p of Inl e \<Rightarrow> Inr False | Inr b \<Rightarrow> Inr b))"

subsection \<open>Strings as Python reads them\<close>

definition is_digit :: "char \<Rightarrow> bool" where
  "is_digit c = (48 \<le> (of_char c :: nat) \<and> (of_char c :: nat) \<le> 57)"

definition digit_val :: "char \<Rightarrow> nat" where
  "digit_val c = of_char c - 48"

definition decimal :: "string \<Rightarrow> nat" where
  "decimal ds = fold (\<lambda>c n. 10 * n + digit_val c) ds 0"

text \<open>The ASCII characters \<^verbatim>\<open>str.isspace\<close> accepts: tab to carriage return, the
  four separators 28 to 31, and the space.\<close>

definition is_space :: "char \<Rightarrow> bool" where
  "is_space c = ((of_char c :: nat) \<in> {9, 10, 11, 12, 13, 28, 29, 30, 31, 32})"

definition strip :: "string \<Rightarrow> string" where
  "strip s = rev (dropWhile is_space (rev (dropWhile is_space s)))"

definition lower_char :: "char \<Rightarrow> char" where
  "lower_char c =
     (if 65 \<le> (of_char c :: nat) \<and> (of_char c :: nat) \<le> 90
      then char_of ((of_char c :: nat) + 32) else c)"

definition lower :: "string \<Rightarrow> string" where
  "lower s = map lower_char s"

text \<open>\<^verbatim>\<open>s.split(sep)\<close>: the pieces between the separators, empty pieces kept.\<close>

fun split_on :: "char \<Rightarrow> string \<Rightarrow> string list" where
  "split_on sep [] = [[]]"
| "split_on sep (c # cs) =
     (if c = sep then [] # split_on sep cs
      else (case split_on sep cs of [] \<Rightarrow> [[c]] | g # gs \<Rightarrow> (c # g) # gs))"

text \<open>\<^verbatim>\<open>s.rsplit(sep, 1)\<close>: one split, at the last separator; the whole string alone
  when there is none.\<close>

definition rsplit1 :: "char \<Rightarrow> string \<Rightarrow> string list" where
  "rsplit1 sep s =
     (if sep \<in> set s
      then [rev (drop 1 (dropWhile (\<lambda>c. c \<noteq> sep) (rev s))),
            rev (takeWhile (\<lambda>c. c \<noteq> sep) (rev s))]
      else [s])"

text \<open>\<^verbatim>\<open>s.split()\<close>: the maximal runs of characters that are not white space.\<close>

fun split_ws :: "string \<Rightarrow> string \<Rightarrow> string list" where
  "split_ws cur [] = (if cur = [] then [] else [rev cur])"
| "split_ws cur (c # cs) =
     (if is_space c
      then (if cur = [] then split_ws [] cs else rev cur # split_ws [] cs)
      else split_ws (c # cur) cs)"

fun join :: "string \<Rightarrow> string list \<Rightarrow> string" where
  "join sep [] = []"
| "join sep [x] = x"
| "join sep (x # y # ys) = x @ sep @ join sep (y # ys)"

definition strip_chars :: "string \<Rightarrow> string \<Rightarrow> string" where
  "strip_chars cs s =
     rev (dropWhile (\<lambda>c. c \<in> set cs) (rev (dropWhile (\<lambda>c. c \<in> set cs) s)))"

text \<open>
  \<^verbatim>\<open>int(s)\<close> on a string: white space around, one optional sign, then decimal
  digits in groups that single underscores separate. Anything else is a ValueError.
\<close>

definition py_int :: "string \<Rightarrow> error + int" where
  "py_int s =
     (case strip s of
        [] \<Rightarrow> Inl ValueError
      | c # r \<Rightarrow>
          (let sgn = (if c = CHR ''-'' then - 1 else (1::int));
               body = (if c = CHR ''-'' \<or> c = CHR ''+'' then r else c # r);
               groups = split_on CHR ''_'' body
           in if list_all (\<lambda>g. g \<noteq> [] \<and> list_all is_digit g) groups
              then Inr (sgn * int (decimal (concat groups)))
              else Inl ValueError))"

subsection \<open>Dates\<close>

record date =
  year :: nat
  month :: nat
  day :: nat

record datetime = date +
  hour :: nat
  minute :: nat
  second :: nat
  microsecond :: nat

definition is_leap :: "nat \<Rightarrow> bool" where
  "is_leap y = (y mod 4 = 0 \<and> (y mod 100 \<noteq> 0 \<or> y mod 400 = 0))"

definition days_in_month :: "nat \<Rightarrow> nat \<Rightarrow> nat" where
  "days_in_month y m =
     (if m = 2 then (if is_leap y then 29 else 28)
      else if m \<in> {4, 6, 9, 11} then 30 else 31)"

definition days_before_year :: "nat \<Rightarrow> int" where
  "days_before_year y =
     (let y1 = int y - 1 in y1 * 365 + y1 div 4 - y1 div 100 + y1 div 400)"

definition days_before_month :: "nat \<Rightarrow> nat \<Rightarrow> int" where
  "days_before_month y m = int (sum_list (map (days_in_month y) [1 ..< m]))"

text \<open>\<^verbatim>\<open>date.toordinal()\<close>: 1 for the first of January of year 1.\<close>

definition toordinal :: "'a date_scheme \<Rightarrow> int" where
  "toordinal d = days_before_year (year d) + days_before_month (year d) (month d) + int (day d)"

text \<open>
  \<^verbatim>\<open>datetime.strptime(s, "%Y-%m-%d").date()\<close>. The format compiles to the regular
  expression \<^verbatim>\<open>(\d\d\d\d)-(1[0-2]|0[1-9]|[1-9])-(3[0-1]|[1-2]\d|0[1-9]|[1-9]| [1-9])\<close>,
  matched at the start of the string; the alternatives are tried in this order, text
  left over after the match is an error, and so is a day the month does not have or
  the year 0.
\<close>

fun match_Y :: "string \<Rightarrow> (nat \<times> string) option" where
  "match_Y (a # b # c # d # rest) =
     (if is_digit a \<and> is_digit b \<and> is_digit c \<and> is_digit d
      then Some (decimal [a, b, c, d], rest) else None)"
| "match_Y _ = None"

definition in_range :: "char \<Rightarrow> char \<Rightarrow> char \<Rightarrow> bool" where
  "in_range lo hi c = ((of_char lo :: nat) \<le> of_char c \<and> (of_char c :: nat) \<le> of_char hi)"

definition match_m :: "string \<Rightarrow> (nat \<times> string) list" where
  "match_m s =
     (case s of
        a # b # r \<Rightarrow>
          (if a = CHR ''1'' \<and> in_range CHR ''0'' CHR ''2'' b then [(decimal [a, b], r)] else []) @
          (if a = CHR ''0'' \<and> in_range CHR ''1'' CHR ''9'' b then [(decimal [a, b], r)] else [])
      | _ \<Rightarrow> []) @
     (case s of
        a # r \<Rightarrow> (if in_range CHR ''1'' CHR ''9'' a then [(decimal [a], r)] else [])
      | _ \<Rightarrow> [])"

definition match_d :: "string \<Rightarrow> (nat \<times> string) list" where
  "match_d s =
     (case s of
        a # b # r \<Rightarrow>
          (if a = CHR ''3'' \<and> in_range CHR ''0'' CHR ''1'' b then [(decimal [a, b], r)] else []) @
          (if in_range CHR ''1'' CHR ''2'' a \<and> is_digit b then [(decimal [a, b], r)] else []) @
          (if a = CHR ''0'' \<and> in_range CHR ''1'' CHR ''9'' b then [(decimal [a, b], r)] else [])
      | _ \<Rightarrow> []) @
     (case s of
        a # r \<Rightarrow> (if in_range CHR ''1'' CHR ''9'' a then [(decimal [a], r)] else [])
      | _ \<Rightarrow> []) @
     (case s of
        a # b # r \<Rightarrow>
          (if a = CHR '' '' \<and> in_range CHR ''1'' CHR ''9'' b then [(decimal [b], r)] else [])
      | _ \<Rightarrow> [])"

definition after_dash :: "string \<Rightarrow> string option" where
  "after_dash s = (case s of [] \<Rightarrow> None | c # r \<Rightarrow> if c = CHR ''-'' then Some r else None)"

definition match_md :: "string \<Rightarrow> (nat \<times> nat \<times> string) list" where
  "match_md s =
     concat (map (\<lambda>(m, r). case after_dash r of
                               None \<Rightarrow> []
                             | Some r' \<Rightarrow> map (\<lambda>(d, r''). (m, d, r'')) (match_d r'))
                 (match_m s))"

definition strptime :: "string \<Rightarrow> error + date" where
  "strptime s =
     (case match_Y s of
        None \<Rightarrow> Inl ValueError
      | Some (y, r) \<Rightarrow>
          (case after_dash r of
             None \<Rightarrow> Inl ValueError
           | Some r' \<Rightarrow>
               (case match_md r' of
                  [] \<Rightarrow> Inl ValueError
                | (m, d, rest) # _ \<Rightarrow>
                    if rest \<noteq> [] then Inl ValueError
                    else if y < 1 \<or> days_in_month y m < d then Inl ValueError
                    else Inr \<lparr>year = y, month = m, day = d\<rparr>)))"

text \<open>
  \<^verbatim>\<open>strftime("%Y%m%d%H%M%S")\<close>: month, day, hour, minute and second are padded to two
  digits; the year is written as it is (the C library does not pad a year below 1000).
\<close>

definition digit_char :: "nat \<Rightarrow> char" where
  "digit_char n = char_of (48 + n mod 10)"

fun str_nat :: "nat \<Rightarrow> string" where
  "str_nat n = (if n < 10 then [digit_char n] else str_nat (n div 10) @ [digit_char n])"

declare str_nat.simps [simp del]

definition pad2 :: "nat \<Rightarrow> string" where
  "pad2 n = (if n < 10 then CHR ''0'' # str_nat n else str_nat n)"

definition strftime :: "datetime \<Rightarrow> string" where
  "strftime t =
     str_nat (year t) @ pad2 (month t) @ pad2 (day t) @ pad2 (hour t) @ pad2 (minute t) @ pad2 (second t)"

subsection \<open>Upload validation\<close>

definition ALLOWED_EXTENSIONS :: "string set" where
  "ALLOWED_EXTENSIONS = {''pdf'', ''png'', ''jpg'', ''jpeg''}"

definition allowed_file :: "string \<Rightarrow> bool" where
  "allowed_file filename =
     (if CHR ''.'' \<in> set filename
      then (case rsplit1 CHR ''.'' filename of
              [_, ext] \<Rightarrow> lower ext \<in> ALLOWED_EXTENSIONS
            | _ \<Rightarrow> False)
      else False)"

text \<open>
  werkzeug's \<^verbatim>\<open>secure_filename\<close> on a POSIX system: characters outside ASCII are
  dropped, a slash becomes a space, runs of white space become one underscore,
  every character outside \<^verbatim>\<open>[A-Za-z0-9_.-]\<close> is removed, and dots and underscores
  are stripped from both ends.
\<close>

definition safe_char :: "char \<Rightarrow> bool" where
  "safe_char c =
     (in_range CHR ''A'' CHR ''Z'' c \<or> in_range CHR ''a'' CHR ''z'' c \<or> is_digit c
      \<or> c = CHR ''_'' \<or> c = CHR ''.'' \<or> c = CHR ''-'')"

definition secure_filename :: "string \<Rightarrow> string" where
  "secure_filename filename =
     (let ascii = filter (\<lambda>c. (of_char c :: nat) < 128) filename;
          spaced = map (\<lambda>c. if c = CHR ''/'' then CHR '' '' else c) ascii;
          joined = join ''_'' (split_ws [] spaced)
      in strip_chars ''._'' (filter safe_char joined))"

subsection \<open>The persistence model (models.py)\<close>

text \<open>A column that may be NULL holds an option. The tables keep their rows in the
  order of insertion. \<open>row_id\<close> is the column \<^verbatim>\<open>id\<close>.\<close>

record Student =
  student_name :: string
  student_id :: string
  email :: string
  phone_number :: "string option"
  password :: string
  student_gender :: "string option"
  student_dept :: "string option"

record Teacher =
  teacher_name :: string
  teacher_id :: string
  email :: string
  phone_number :: "string option"
  password :: string
  teacher_gender :: "string option"
  teacher_dept :: "string option"

record Achievement =
  row_id :: nat
  student_id :: string
  teacher_id :: string
  achievement_type :: string
  event_name :: string
  achievement_date :: date
  organizer :: string
  position :: string
  achievement_description :: "string option"
  certificate_path :: "string option"
  symposium_theme :: "string option"
  programming_language :: "string option"
  coding_platform :: "string option"
  paper_title :: "string option"
  journal_name :: "string option"
  conference_level :: "string option"
  conference_role :: "string option"
  team_size :: "int option"
  project_title :: "string option"
  database_type :: "string option"
  difficulty_level :: "string option"
  other_description :: "string option"
  created_at :: datetime

record database =
  connected :: bool
  students :: "Student list"
  teachers :: "Teacher list"
  achievements :: "Achievement list"

text \<open>\<^verbatim>\<open>Model.query.filter_by(key=v).first()\<close>: a query on a database that cannot be
  reached raises; \<^verbatim>\<open>None\<close> as the value compares with NULL and finds no row.\<close>

definition Student_first :: "database \<Rightarrow> string option \<Rightarrow> error + Student option" where
  "Student_first db v =
     (if \<not> connected db then Inl OperationalError
      else Inr (case v of
                  None \<Rightarrow> None
                | Some k \<Rightarrow> find (\<lambda>r. Student.student_id r = k) (students db)))"

definition Teacher_first :: "database \<Rightarrow> string option \<Rightarrow> error + Teacher option" where
  "Teacher_first db v =
     (if \<not> connected db then Inl OperationalError
      else Inr (case v of
                  None \<Rightarrow> None
                | Some k \<Rightarrow> find (\<lambda>r. Teacher.teacher_id r = k) (teachers db)))"

definition by_teacher :: "string option \<Rightarrow> Achievement \<Rightarrow> bool" where
  "by_teacher v a = (v = Some (Achievement.teacher_id a))"

text \<open>The next value of the autoincrement key.\<close>

definition next_id :: "database \<Rightarrow> nat" where
  "next_id db = Suc (fold max (map row_id (achievements db)) 0)"

text \<open>\<^verbatim>\<open>db.session.add(a); db.session.commit()\<close>: the row is appended, unless the
  database cannot be reached or the integer does not fit SQLite's 64 bits.\<close>

definition add_commit :: "database \<Rightarrow> Achievement \<Rightarrow> error + database" where
  "add_commit db a =
     (if \<not> connected db then Inl OperationalError
      else (case Achievement.team_size a of
              None \<Rightarrow> Inr (db\<lparr>achievements := achievements db @ [a]\<rparr>)
            | Some n \<Rightarrow>
                if n < - (2 ^ 63) \<or> 2 ^ 63 \<le> n then Inl OverflowError
                else Inr (db\<lparr>achievements := achievements db @ [a]\<rparr>)))"

text \<open>The order of \<^verbatim>\<open>created_at\<close> values.\<close>

definition timestamp :: "datetime \<Rightarrow> int" where
  "timestamp t =
     (((toordinal t * 24 + int (hour t)) * 60 + int (minute t)) * 60 + int (second t)) * 1000000
       + int (microsecond t)"

subsection \<open>Requests, sessions and responses\<close>

datatype http_method = GET | POST

record FileStorage =
  filename :: string
  stream :: string

record request =
  "method" :: http_method
  form :: "string \<rightharpoonup> string"
  files :: "string \<rightharpoonup> FileStorage"

text \<open>The session holds a flag and the identity of each role that has logged in;
  \<^verbatim>\<open>session.get(key)\<close> of a key that was never set is \<open>None\<close>.\<close>

record session =
  logged_in :: bool
  student_id :: "string option"
  student_name :: "string option"
  student_dept :: "string option"
  teacher_id :: "string option"
  teacher_name :: "string option"
  teacher_dept :: "string option"

definition truthy :: "string option \<Rightarrow> bool" where
  "truthy v = (case v of None \<Rightarrow> False | Some s \<Rightarrow> s \<noteq> [])"

text \<open>The uploads directory: file name to content.\<close>

type_synonym uploads = "string \<rightharpoonup> string"

datatype context_value =
    Msg string
  | Identity "string option" "string option" "string option"
  | Stats nat nat nat
  | Entries "Achievement list"

datatype response =
    Redirect string "(string \<times> string) list"
  | Render string "(string \<times> context_value) list"

subsection \<open>Login\<close>

definition student :: "check_password_hash \<Rightarrow> session \<Rightarrow> request \<Rightarrow> database \<Rightarrow> session \<times> response" where
  "student chk sess req db =
     (if method req = POST then
        (case Student_first db (form req ''sname'') of
           Inl e \<Rightarrow>
             (sess, Render ''student.html'' [(''error'', Msg ''A database error occurred. Please try again.'')])
         | Inr None \<Rightarrow>
             (sess, Render ''student.html'' [(''error'', Msg ''Invalid credentials. Please try again.'')])
         | Inr (Some student_obj) \<Rightarrow>
             (case verify_password chk (Some (Student.password student_obj)) (form req ''password'') of
                Inl e \<Rightarrow>
                  (sess, Render ''student.html'' [(''error'', Msg ''A database error occurred. Please try again.'')])
              | Inr ok \<Rightarrow>
                  if ok then
                    (sess\<lparr>logged_in := True,
                          session.student_id := Some (Student.student_id student_obj),
                          session.student_name := Some (Student.student_name student_obj),
                          session.student_dept := Student.student_dept student_obj\<rparr>,
                     Redirect ''student-dashboard'' [])
                  else
                    (sess, Render ''student.html'' [(''error'', Msg ''Invalid credentials. Please try again.'')])))
      else (sess, Render ''student.html'' []))"

definition teacher :: "check_password_hash \<Rightarrow> session \<Rightarrow> request \<Rightarrow> database \<Rightarrow> session \<times> response" where
  "teacher chk sess req db =
     (if method req = POST then
        (case Teacher_first db (form req ''tname'') of
           Inl e \<Rightarrow>
             (sess, Render ''teacher.html'' [(''error'', Msg ''A database error occurred. Please try again.'')])
         | Inr None \<Rightarrow>
             (sess, Render ''teacher.html'' [(''error'', Msg ''Invalid credentials. Please try again.'')])
         | Inr (Some teacher_obj) \<Rightarrow>
             (case verify_password chk (Some (Teacher.password teacher_obj)) (form req ''password'') of
                Inl e \<Rightarrow>
                  (sess, Render ''teacher.html'' [(''error'', Msg ''A database error occurred. Please try again.'')])
              | Inr ok \<Rightarrow>
                  if ok then
                    (sess\<lparr>logged_in := True,
                          session.teacher_id := Some (Teacher.teacher_id teacher_obj),
                          session.teacher_name := Some (Teacher.teacher_name teacher_obj),
                          session.teacher_dept := Teacher.teacher_dept teacher_obj\<rparr>,
                     Redirect ''teacher-dashboard'' [])
                  else
                    (sess, Render ''teacher.html'' [(''error'', Msg ''Invalid credentials. Please try again.'')])))
      else (sess, Render ''teacher.html'' []))"

subsection \<open>Achievement submission\<close>

definition form_error :: "string \<Rightarrow> response" where
  "form_error msg = Render ''submit_achievements.html'' [(''error'', Msg msg)]"

text \<open>
  The handler takes the two clocks it reads: \<open>now\<close> is \<^verbatim>\<open>datetime.now()\<close>, \<open>utcnow\<close> the
  default of \<^verbatim>\<open>created_at\<close>. A primed name is the handler's local variable of that
  name. The row's student identifier is the submitted one, which the query has just
  matched. A required column whose form field is missing fails
  the commit; the handler's last \<^verbatim>\<open>except\<close> turns every failure of the commit into
  the generic message and rolls back.
\<close>

definition submit_achievements ::
  "session \<Rightarrow> request \<Rightarrow> datetime \<Rightarrow> datetime \<Rightarrow> database \<Rightarrow> uploads
     \<Rightarrow> database \<times> uploads \<times> (error + response)" where
  "submit_achievements sess req now utcnow db up =
     (case session.teacher_id sess of
        None \<Rightarrow> (db, up, Inr (Redirect ''teacher'' []))
      | Some teacher_id' \<Rightarrow>
     if \<not> logged_in sess \<or> teacher_id' = [] then (db, up, Inr (Redirect ''teacher'' []))
     else if method req \<noteq> POST then
       (db, up, Inr (Redirect ''teacher-dashboard'' [(''success'', ''Achievement submitted successfully!'')]))
     else
     (case Student_first db (form req ''student_id'') of
        Inl e \<Rightarrow> (db, up, Inl e)
      | Inr None \<Rightarrow> (db, up, Inr (form_error ''Student ID does not exist in the system.''))
      | Inr (Some student_obj) \<Rightarrow>
     (case (case files req ''certificate'' of
              None \<Rightarrow> Inr (up, None)
            | Some file \<Rightarrow>
                if filename file \<noteq> [] then
                  (if allowed_file (filename file) then
                     (let secure_name = strftime now @ ''_'' @ secure_filename (filename file)
                      in Inr (up(secure_name \<mapsto> stream file), Some (''uploads/'' @ secure_name)))
                   else Inl (form_error ''Invalid file type. Please upload PDF, PNG, JPG, or JPEG files.''))
                else Inr (up, None)) of
        Inl rejected \<Rightarrow> (db, up, Inr rejected)
      | Inr (up', certificate_path') \<Rightarrow>
     (case (case form req ''team_size'' of
              None \<Rightarrow> Inr None
            | Some team_size_raw \<Rightarrow>
                if team_size_raw \<noteq> [] \<and> strip team_size_raw \<noteq> []
                then (case py_int team_size_raw of Inl e \<Rightarrow> Inl e | Inr n \<Rightarrow> Inr (Some n))
                else Inr None) of
        Inl e \<Rightarrow> (db, up', Inl e)
      | Inr team_size' \<Rightarrow>
     (case form req ''achievement_date'' of
        None \<Rightarrow> (db, up', Inr (form_error ''Achievement date is required.''))
      | Some date_str \<Rightarrow>
     if date_str = [] then (db, up', Inr (form_error ''Achievement date is required.''))
     else
     (case strptime date_str of
        Inl e \<Rightarrow>
          if e = ValueError
          then (db, up', Inr (form_error ''Invalid date format. Please use YYYY-MM-DD.''))
          else (db, up', Inl e)
      | Inr achievement_date' \<Rightarrow>
     (case (case (form req ''achievement_type'', form req ''event_name'',
                  form req ''organizer'', form req ''position'') of
              (Some achievement_type', Some event_name', Some organizer', Some position') \<Rightarrow>
                add_commit db
                  \<lparr>row_id = next_id db,
                   Achievement.student_id = Student.student_id student_obj,
                   Achievement.teacher_id = teacher_id',
                   achievement_type = achievement_type',
                   event_name = event_name',
                   achievement_date = achievement_date',
                   organizer = organizer',
                   position = position',
                   achievement_description = form req ''achievement_description'',
                   certificate_path = certificate_path',
                   symposium_theme = form req ''symposium_theme'',
                   programming_language = form req ''programming_language'',
                   coding_platform = form req ''coding_platform'',
                   paper_title = form req ''paper_title'',
                   journal_name = form req ''journal_name'',
                   conference_level = form req ''conference_level'',
                   conference_role = form req ''conference_role'',
                   team_size = team_size',
                   project_title = form req ''project_title'',
                   database_type = form req ''database_type'',
                   difficulty_level = form req ''difficulty_level'',
                   other_description = form req ''other_description'',
                   created_at = utcnow\<rparr>
            | _ \<Rightarrow> Inl IntegrityError) of
        Inl e \<Rightarrow> (db, up', Inr (form_error ''An error occurred. Please try again.''))
      | Inr db' \<Rightarrow>
          (db', up',
           Inr (Render ''submit_achievements.html''
                  [(''success'', Msg (''Achievement of '' @ Student.student_name student_obj
                                      @ '' has been successfully registered!!''))])))))))))"

subsection \<open>Teacher dashboard and listing\<close>

text \<open>
  \<^verbatim>\<open>order_by(column.desc())\<close> is a stable sort of the rows in table order, so rows with
  equal keys stay in the order of insertion. \<open>now\<close> is \<^verbatim>\<open>datetime.now()\<close>; seven days
  earlier, as a date, is seven less in ordinals.
\<close>

definition order_by_desc :: "('a \<Rightarrow> int) \<Rightarrow> 'a list \<Rightarrow> 'a list" where
  "order_by_desc key rows = sort_key (\<lambda>r. - key r) rows"

definition teacher_dashboard :: "session \<Rightarrow> datetime \<Rightarrow> database \<Rightarrow> error + response" where
  "teacher_dashboard sess now db =
     (if \<not> logged_in sess then Inr (Redirect ''teacher'' [])
      else if \<not> connected db then Inl OperationalError
      else
        (let teacher_id' = session.teacher_id sess;
             total_achievements = length (filter (by_teacher teacher_id') (achievements db));
             students_managed =
               length (remdups (map Achievement.student_id
                                    (filter (by_teacher teacher_id') (achievements db))));
             one_week_ago = toordinal now - 7;
             this_week_count =
               length (filter (\<lambda>a. by_teacher teacher_id' a
                                     \<and> one_week_ago \<le> toordinal (achievement_date a))
                              (achievements db));
             recent_entries =
               take 5 (order_by_desc (\<lambda>a. timestamp (created_at a))
                                     (filter (by_teacher teacher_id') (achievements db)))
         in Inr (Render ''teacher_dashboard.html''
                   [(''teacher'', Identity teacher_id' (session.teacher_name sess) (session.teacher_dept sess)),
                    (''stats'', Stats total_achievements students_managed this_week_count),
                    (''recent_entries'', Entries recent_entries)])))"

definition all_achievements :: "session \<Rightarrow> database \<Rightarrow> error + response" where
  "all_achievements sess db =
     (if \<not> logged_in sess then Inr (Redirect ''teacher'' [])
      else if \<not> connected db then Inl OperationalError
      else
        (let teacher_id' = session.teacher_id sess;
             achievements' =
               order_by_desc (\<lambda>a. toordinal (achievement_date a))
                             (filter (by_teacher teacher_id') (achievements db))
         in Inr (Render ''all_achievements.html'' [(''achievements'', Entries achievements')])))"

subsection \<open>Notions the properties use\<close>

text \<open>The invariant of Python's \<^verbatim>\<open>datetime\<close> objects.\<close>

definition valid_datetime :: "datetime \<Rightarrow> bool" where
  "valid_datetime t =
     (1 \<le> year t \<and> year t \<le> 9999 \<and> 1 \<le> month t \<and> month t \<le> 12
      \<and> 1 \<le> day t \<and> day t \<le> days_in_month (year t) (month t)
      \<and> hour t < 24 \<and> minute t < 60 \<and> second t < 60 \<and> microsecond t < 1000000)"

text \<open>A date within the trailing seven days, the current date included, as the
  specification words the third aggregate of the dashboard.\<close>

definition in_trailing_week :: "datetime \<Rightarrow> date \<Rightarrow> bool" where
  "in_trailing_week today d = (toordinal today - 7 \<le> toordinal d \<and> toordinal d \<le> toordinal today)"

subsection \<open>Sample data\<close>

text \<open>One student, one teacher, and a library check that accepts the password \<open>p\<close>
  for the hash \<open>h$p\<close>; the concrete runs below use them.\<close>

definition sample_student :: Student where
  "sample_student =
     \<lparr>Student.student_name = ''Ada'', Student.student_id = ''S1'', Student.email = ''ada@example.org'',
      Student.phone_number = None, Student.password = ''h$secret'', student_gender = None,
      Student.student_dept = Some ''CS''\<rparr>"

definition sample_teacher :: Teacher where
  "sample_teacher =
     \<lparr>Teacher.teacher_name = ''Jane'', Teacher.teacher_id = ''T1'', Teacher.email = ''jane@example.org'',
      Teacher.phone_number = None, Teacher.password = ''h$chalk'', teacher_gender = None,
      Teacher.teacher_dept = Some ''CS''\<rparr>"

definition sample_db :: database where
  "sample_db =
     \<lparr>connected = True, students = [sample_student], teachers = [sample_teacher], achievements = []\<rparr>"

definition no_session :: session where
  "no_session =
     \<lparr>logged_in = False, student_id = None, student_name = None, student_dept = None,
      teacher_id = None, teacher_name = None, teacher_dept = None\<rparr>"

definition teacher_session :: session where
  "teacher_session =
     no_session\<lparr>logged_in := True, teacher_id := Some ''T1'', teacher_name := Some ''Jane'',
                teacher_dept := Some ''CS''\<rparr>"

definition student_session :: session where
  "student_session =
     no_session\<lparr>logged_in := True, student_id := Some ''S1'', student_name := Some ''Ada'',
                student_dept := Some ''CS''\<rparr>"

definition sample_now :: datetime where
  "sample_now = \<lparr>year = 2024, month = 3, day = 1, hour = 9, minute = 5, second = 7, microsecond = 0\<rparr>"

definition sample_form :: "string \<rightharpoonup> string" where
  "sample_form =
     [''student_id'' \<mapsto> ''S1'', ''achievement_type'' \<mapsto> ''Hackathon'', ''event_name'' \<mapsto> ''CodeFest'',
      ''achievement_date'' \<mapsto> ''2024-02-28'', ''organizer'' \<mapsto> ''ACM'', ''position'' \<mapsto> ''1st'']"

definition sample_chk :: check_password_hash where
  "sample_chk h p = Inr (h = ''h$'' @ p)"

text \<open>A database whose one achievement is dated the day after \<open>sample_now\<close>, as the
  handler stores it, and one with three achievements of teacher T1 for two students.\<close>

definition future_dated_db :: database where
  "future_dated_db =
     fst (submit_achievements teacher_session
            \<lparr>method = POST, form = sample_form(''achievement_date'' \<mapsto> ''2024-03-02''), files = Map.empty\<rparr>
            sample_now sample_now sample_db Map.empty)"

definition sample_row :: Achievement where
  "sample_row =
     \<lparr>row_id = 1, Achievement.student_id = ''S1'', Achievement.teacher_id = ''T1'',
      achievement_type = ''Hackathon'', event_name = ''CodeFest'',
      achievement_date = \<lparr>year = 2024, month = 2, day = 28\<rparr>,
      organizer = ''ACM'', position = ''1st'', achievement_description = None,
      certificate_path = None, symposium_theme = None, programming_language = None,
      coding_platform = None, paper_title = None, journal_name = None, conference_level = None,
      conference_role = None, team_size = None, project_title = None, database_type = None,
      difficulty_level = None, other_description = None, created_at = sample_now\<rparr>"

definition three_rows_db :: database where
  "three_rows_db =
     sample_db\<lparr>achievements :=
       [sample_row,
        sample_row\<lparr>row_id := 2, Achievement.student_id := ''S2''\<rparr>,
        sample_row\<lparr>row_id := 3\<rparr>]\<rparr>"

section \<open>Properties\<close>

subsection \<open>Splitting at the last dot, and the timestamp\<close>

lemma rsplit1_decomp:
  assumes "sep \<in> set s"
  shows "rsplit1 sep s = [a, b] \<longleftrightarrow> s = a @ sep # b \<and> sep \<notin> set b"
proof
  let ?P = "\<lambda>c. c \<noteq> sep"
  assume "rsplit1 sep s = [a, b]"
  with assms have a: "a = rev (drop 1 (dropWhile ?P (rev s)))" and b: "b = rev (takeWhile ?P (rev s))"
    by (simp_all add: rsplit1_def)
  from assms have "dropWhile ?P (rev s) \<noteq> []" by (simp add: dropWhile_eq_Nil_conv) 
  moreover from this have "hd (dropWhile ?P (rev s)) = sep" using hd_dropWhile [of ?P "rev s"] by simp
  ultimately have d: "dropWhile ?P (rev s) = sep # drop 1 (dropWhile ?P (rev s))"
    by (cases "dropWhile ?P (rev s)") simp_all
  have "rev s = takeWhile ?P (rev s) @ dropWhile ?P (rev s)" by simp
  with d have "rev s = takeWhile ?P (rev s) @ sep # drop 1 (dropWhile ?P (rev s))" by simp
  then have "rev (rev s) = rev (takeWhile ?P (rev s) @ sep # drop 1 (dropWhile ?P (rev s)))" by simp
  then have "s = a @ sep # b" unfolding a b by simp
  moreover have "sep \<notin> set b" unfolding b using set_takeWhileD [of sep ?P "rev s"] by auto
  ultimately show "s = a @ sep # b \<and> sep \<notin> set b" by simp
next
  let ?P = "\<lambda>c. c \<noteq> sep"
  assume h: "s = a @ sep # b \<and> sep \<notin> set b"
  then have r: "rev s = rev b @ sep # rev a" by simp
  from h have "takeWhile ?P (rev b @ sep # rev a) = rev b"
    by (subst takeWhile_append2) auto
  moreover from h have "dropWhile ?P (rev b @ sep # rev a) = sep # rev a"
    by (subst dropWhile_append2) auto
  ultimately show "rsplit1 sep s = [a, b]" using assms r by (simp add: rsplit1_def)
qed

lemma allowed_file_iff:
  "allowed_file f \<longleftrightarrow>
     (\<exists>stem ext. f = stem @ ''.'' @ ext \<and> CHR ''.'' \<notin> set ext \<and> lower ext \<in> ALLOWED_EXTENSIONS)"
proof (cases "CHR ''.'' \<in> set f")
  case False
  then show ?thesis by (auto simp: allowed_file_def)
next
  case True
  then obtain a b where ab: "rsplit1 CHR ''.'' f = [a, b]" by (auto simp: rsplit1_def)
  with True have f: "f = a @ CHR ''.'' # b" "CHR ''.'' \<notin> set b" by (simp_all add: rsplit1_decomp)
  show ?thesis
  proof
    assume "allowed_file f"
    with True ab have "lower b \<in> ALLOWED_EXTENSIONS" by (simp add: allowed_file_def)
    with f show "\<exists>stem ext. f = stem @ ''.'' @ ext \<and> CHR ''.'' \<notin> set ext \<and> lower ext \<in> ALLOWED_EXTENSIONS"
      by auto
  next
    assume "\<exists>stem ext. f = stem @ ''.'' @ ext \<and> CHR ''.'' \<notin> set ext \<and> lower ext \<in> ALLOWED_EXTENSIONS"
    then obtain stem ext where e: "f = stem @ CHR ''.'' # ext" "CHR ''.'' \<notin> set ext" "lower ext \<in> ALLOWED_EXTENSIONS"
      by auto
    with True have "rsplit1 CHR ''.'' f = [stem, ext]" by (simp add: rsplit1_decomp)
    with True e show "allowed_file f" by (simp add: allowed_file_def)
  qed
qed

lemma is_digit_digit_char: "is_digit (digit_char n)"
  by (simp add: is_digit_def digit_char_def)

lemma str_nat_digits: "list_all is_digit (str_nat n)"
proof (induction n rule: str_nat.induct)
  case (1 n)
  show ?case
  proof (cases "n < 10")
    case True
    then show ?thesis by (subst str_nat.simps) (simp add: is_digit_digit_char)
  next
    case False
    with 1 show ?thesis by (subst str_nat.simps) (simp add: is_digit_digit_char)
  qed
qed

lemma length_str_nat_1: "n < 10 \<Longrightarrow> length (str_nat n) = 1"
  by (subst str_nat.simps) simp

lemma length_str_nat_2: "10 \<le> n \<Longrightarrow> n < 100 \<Longrightarrow> length (str_nat n) = 2"
  by (subst str_nat.simps) (simp add: length_str_nat_1 div_less_iff_less_mult)

lemma length_str_nat_3: "100 \<le> n \<Longrightarrow> n < 1000 \<Longrightarrow> length (str_nat n) = 3"
  by (subst str_nat.simps) (simp add: length_str_nat_2 div_less_iff_less_mult less_eq_div_iff_mult_less_eq)

lemma length_str_nat_4: "1000 \<le> n \<Longrightarrow> n < 10000 \<Longrightarrow> length (str_nat n) = 4"
  by (subst str_nat.simps) (simp add: length_str_nat_3 div_less_iff_less_mult less_eq_div_iff_mult_less_eq)

lemma length_pad2: "n < 100 \<Longrightarrow> length (pad2 n) = 2"
  by (cases "n < 10") (simp_all add: pad2_def length_str_nat_1 length_str_nat_2)

lemma pad2_digits: "list_all is_digit (pad2 n)"
  by (simp add: pad2_def str_nat_digits is_digit_def)

lemma strftime_14_digits:
  assumes "valid_datetime t" and "1000 \<le> year t"
  shows "length (strftime t) = 14 \<and> list_all is_digit (strftime t)"
proof -
  from assms have "year t < 10000" "month t < 100" "hour t < 100" "minute t < 100" "second t < 100"
    by (simp_all add: valid_datetime_def)
  moreover from assms have "day t \<le> 31"
    by (auto simp: valid_datetime_def days_in_month_def split: if_splits)
  ultimately show ?thesis using assms(2)
    by (simp add: strftime_def length_str_nat_4 length_pad2 str_nat_digits pad2_digits)
qed

subsection \<open>Steps of the submission handler\<close>

lemma strptime_error: "strptime s = Inl e \<Longrightarrow> e = ValueError"
  by (auto simp: strptime_def split: option.splits list.splits if_splits prod.splits)

lemma submit_file_rejected:
  assumes "logged_in sess" and "truthy (session.teacher_id sess)" and "method req = POST"
    and "Student_first db (form req ''student_id'') = Inr (Some st)"
    and "files req ''certificate'' = Some file" and "filename file \<noteq> []"
    and "\<not> allowed_file (filename file)"
  shows "submit_achievements sess req now utcnow db up
           = (db, up, Inr (form_error ''Invalid file type. Please upload PDF, PNG, JPG, or JPEG files.''))"
  using assms by (simp add: submit_achievements_def truthy_def split: option.splits)

lemma submit_file_accepted:
  assumes "logged_in sess" and "truthy (session.teacher_id sess)" and "method req = POST"
    and "Student_first db (form req ''student_id'') = Inr (Some st)"
    and "files req ''certificate'' = Some file" and "filename file \<noteq> []"
    and "allowed_file (filename file)"
  shows "fst (snd (submit_achievements sess req now utcnow db up))
           = up(strftime now @ ''_'' @ secure_filename (filename file) \<mapsto> stream file)"
    and "snd (snd (submit_achievements sess req now utcnow db up))
           \<noteq> Inr (form_error ''Invalid file type. Please upload PDF, PNG, JPG, or JPEG files.'')"
    and "achievements (fst (submit_achievements sess req now utcnow db up)) = achievements db
         \<or> (\<exists>a. achievements (fst (submit_achievements sess req now utcnow db up)) = achievements db @ [a]
                \<and> certificate_path a
                    = Some (''uploads/'' @ strftime now @ ''_'' @ secure_filename (filename file)))"
  using assms
  by (auto simp: submit_achievements_def truthy_def Let_def form_error_def add_commit_def
           split: option.splits sum.splits if_splits)

subsection \<open>Ordering of query results\<close>

lemma filter_take_prefix: "\<exists>n. filter P (take m xs) = take n (filter P xs)"
proof
  have "filter P xs = filter P (take m xs) @ filter P (drop m xs)"
    by (simp flip: filter_append)
  then show "filter P (take m xs) = take (length (filter P (take m xs))) (filter P xs)"
    by simp
qed

lemma order_by_desc_sorted:
  "sorted_wrt (\<lambda>a b. key b \<le> key a) (order_by_desc key rows)"
proof -
  have "sorted (map (\<lambda>r. - key r) (sort_key (\<lambda>r. - key r) rows))" by (rule sorted_sort_key)
  then show ?thesis by (simp add: order_by_desc_def sorted_map)
qed

lemma order_by_desc_stable:
  "filter (\<lambda>r. key r = k) (order_by_desc key rows) = filter (\<lambda>r. key r = k) rows"
  using sort_key_stable [of "\<lambda>r. - key r" "- k" rows] by (simp add: order_by_desc_def)

lemma take_order_by_desc_top:
  assumes "a \<in> set rows" and "a \<notin> set (take n (order_by_desc key rows))"
    and "b \<in> set (take n (order_by_desc key rows))"
  shows "key a \<le> key b"
proof -
  let ?s = "order_by_desc key rows"
  from assms(1) have "a \<in> set ?s" by (simp add: order_by_desc_def)
  moreover have "set (take n ?s) \<union> set (drop n ?s) = set ?s"
    by (metis append_take_drop_id set_append)
  ultimately have a: "a \<in> set (drop n ?s)" using assms(2) by blast
  have "sorted_wrt (\<lambda>a b. key b \<le> key a) (take n ?s @ drop n ?s)"
    using order_by_desc_sorted [of key rows] by simp
  with a assms(3) show ?thesis unfolding sorted_wrt_append by blast
qed

subsection \<open>Password security module\<close>

text \<open>
  C9. \<open>hash_password\<close> fails with the empty-password error (a ValueError) on \<open>None\<close>
  and on the empty string. \<open>verify_password\<close> answers false when the stored hash or
  the supplied password is \<open>None\<close> or empty, and when the library's check raises; it
  returns a truth value on every input, so it never raises.
\<close>

theorem password_guards:
  "hash_password gen None = Inl ValueError
   \<and> hash_password gen (Some []) = Inl ValueError
   \<and> verify_password chk None p = Inr False
   \<and> verify_password chk h None = Inr False
   \<and> verify_password chk (Some []) p = Inr False
   \<and> verify_password chk h (Some []) = Inr False
   \<and> (chk h' p' = Inl e \<longrightarrow> verify_password chk (Some h') (Some p') = Inr False)
   \<and> (\<exists>b. verify_password chk h p = Inr b)"
  by (auto simp: hash_password_def verify_password_def split: option.splits sum.splits)

theorem password_guards_witness:
  "(\<lambda>h p. Inl LibraryError :: error + bool) ''scrypt:x'' ''secret'' = Inl LibraryError
   \<and> verify_password (\<lambda>h p. Inl LibraryError) (Some ''scrypt:x'') (Some ''secret'') = Inr False
   \<and> hash_password (\<lambda>p. Inr (''h$'' @ p)) (Some []) = Inl ValueError"
  using password_guards [of "\<lambda>p. Inr (''h$'' @ p)" "\<lambda>h p. Inl LibraryError"
      "Some ''secret''" "Some ''scrypt:x''" "''scrypt:x''" "''secret''" LibraryError]
  by simp

subsection \<open>Login\<close>

text \<open>
  C6. A login attempt that fails because no record has the submitted identifier and
  one that fails because the password does not verify against the stored hash get the
  same response, the generic invalid-credentials message on the login form, and
  neither changes the session. This holds for the student and for the teacher login.
\<close>

theorem failed_login_same_response:
  "(method req1 = POST \<and> method req2 = POST
      \<and> Student_first db1 (form req1 ''sname'') = Inr None
      \<and> Student_first db2 (form req2 ''sname'') = Inr (Some st)
      \<and> verify_password chk (Some (Student.password st)) (form req2 ''password'') = Inr False
    \<longrightarrow> student chk sess1 req1 db1
          = (sess1, Render ''student.html'' [(''error'', Msg ''Invalid credentials. Please try again.'')])
      \<and> student chk sess2 req2 db2
          = (sess2, Render ''student.html'' [(''error'', Msg ''Invalid credentials. Please try again.'')])
      \<and> snd (student chk sess1 req1 db1) = snd (student chk sess2 req2 db2))
   \<and> (method req1 = POST \<and> method req2 = POST
      \<and> Teacher_first db1 (form req1 ''tname'') = Inr None
      \<and> Teacher_first db2 (form req2 ''tname'') = Inr (Some t)
      \<and> verify_password chk (Some (Teacher.password t)) (form req2 ''password'') = Inr False
    \<longrightarrow> teacher chk sess1 req1 db1
          = (sess1, Render ''teacher.html'' [(''error'', Msg ''Invalid credentials. Please try again.'')])
      \<and> teacher chk sess2 req2 db2
          = (sess2, Render ''teacher.html'' [(''error'', Msg ''Invalid credentials. Please try again.'')])
      \<and> snd (teacher chk sess1 req1 db1) = snd (teacher chk sess2 req2 db2))"
  by (simp add: student_def teacher_def)

theorem failed_login_same_response_witness:
  "snd (student sample_chk no_session
          \<lparr>method = POST, form = [''sname'' \<mapsto> ''S404'', ''password'' \<mapsto> ''secret''], files = Map.empty\<rparr> sample_db)
     = snd (student sample_chk no_session
          \<lparr>method = POST, form = [''sname'' \<mapsto> ''S1'', ''password'' \<mapsto> ''guess''], files = Map.empty\<rparr> sample_db)
   \<and> snd (teacher sample_chk no_session
          \<lparr>method = POST, form = [''tname'' \<mapsto> ''T404'', ''password'' \<mapsto> ''chalk''], files = Map.empty\<rparr> sample_db)
     = snd (teacher sample_chk no_session
          \<lparr>method = POST, form = [''tname'' \<mapsto> ''T1'', ''password'' \<mapsto> ''guess''], files = Map.empty\<rparr> sample_db)"
proof -
  let ?s1 = "\<lparr>method = POST, form = [''sname'' \<mapsto> ''S404'', ''password'' \<mapsto> ''secret''], files = Map.empty\<rparr>"
  let ?s2 = "\<lparr>method = POST, form = [''sname'' \<mapsto> ''S1'', ''password'' \<mapsto> ''guess''], files = Map.empty\<rparr>"
  let ?t1 = "\<lparr>method = POST, form = [''tname'' \<mapsto> ''T404'', ''password'' \<mapsto> ''chalk''], files = Map.empty\<rparr>"
  let ?t2 = "\<lparr>method = POST, form = [''tname'' \<mapsto> ''T1'', ''password'' \<mapsto> ''guess''], files = Map.empty\<rparr>"
  have s: "method ?s1 = POST \<and> method ?s2 = POST
      \<and> Student_first sample_db (form ?s1 ''sname'') = Inr None
      \<and> Student_first sample_db (form ?s2 ''sname'') = Inr (Some sample_student)
      \<and> verify_password sample_chk (Some (Student.password sample_student)) (form ?s2 ''password'') = Inr False"
    by (simp add: Student_first_def sample_db_def sample_student_def verify_password_def sample_chk_def)
  have t: "method ?t1 = POST \<and> method ?t2 = POST
      \<and> Teacher_first sample_db (form ?t1 ''tname'') = Inr None
      \<and> Teacher_first sample_db (form ?t2 ''tname'') = Inr (Some sample_teacher)
      \<and> verify_password sample_chk (Some (Teacher.password sample_teacher)) (form ?t2 ''password'') = Inr False"
    by (simp add: Teacher_first_def sample_db_def sample_teacher_def verify_password_def sample_chk_def)
  from failed_login_same_response [of ?s1 ?s2 sample_db sample_db sample_student sample_chk no_session no_session]
    s have "snd (student sample_chk no_session ?s1 sample_db) = snd (student sample_chk no_session ?s2 sample_db)"
    by blast
  moreover
  from failed_login_same_response [of ?t1 ?t2 sample_db sample_db _ sample_chk no_session no_session sample_teacher]
    t have "snd (teacher sample_chk no_session ?t1 sample_db) = snd (teacher sample_chk no_session ?t2 sample_db)"
    by blast
  ultimately show ?thesis by simp
qed

subsection \<open>Achievement submission\<close>

text \<open>
  C8. A submission under a teacher session whose student identifier matches no
  Student re-renders the form with the message that the student does not exist; the
  database and the uploads directory are as before, so no Achievement is created.
\<close>

theorem unknown_student_rejected:
  assumes "logged_in sess" and "truthy (session.teacher_id sess)" and "method req = POST"
    and "Student_first db (form req ''student_id'') = Inr None"
  shows "submit_achievements sess req now utcnow db up
           = (db, up, Inr (Render ''submit_achievements.html''
                             [(''error'', Msg ''Student ID does not exist in the system.'')]))"
  using assms
  by (simp add: submit_achievements_def truthy_def form_error_def split: option.splits)

theorem unknown_student_rejected_witness:
  "submit_achievements teacher_session
      \<lparr>method = POST, form = sample_form(''student_id'' \<mapsto> ''S404''), files = Map.empty\<rparr>
      sample_now sample_now sample_db Map.empty
     = (sample_db, Map.empty, Inr (Render ''submit_achievements.html''
                             [(''error'', Msg ''Student ID does not exist in the system.'')]))"
proof -
  let ?req = "\<lparr>method = POST, form = sample_form(''student_id'' \<mapsto> ''S404''), files = Map.empty\<rparr>"
  have a: "logged_in teacher_session" "truthy (session.teacher_id teacher_session)"
    by (simp_all add: teacher_session_def no_session_def truthy_def)
  have b: "method ?req = POST" by simp
  have c: "Student_first sample_db (form ?req ''student_id'') = Inr None"
    by (simp add: Student_first_def sample_db_def sample_student_def)
  show ?thesis by (rule unknown_student_rejected [OF a b c])
qed

text \<open>
  C10. A certificate part with an empty filename is treated as no file at all: the
  handler's result is the one of the same request without the part, the uploads
  directory is unchanged, and a row that is created has no certificate path.
\<close>

theorem empty_filename_as_no_file:
  assumes "files req ''certificate'' = Some file" and "filename file = []"
  shows "submit_achievements sess req now utcnow db up
           = submit_achievements sess (req\<lparr>files := (files req)(''certificate'' := None)\<rparr>) now utcnow db up
         \<and> fst (snd (submit_achievements sess req now utcnow db up)) = up
         \<and> (achievements (fst (submit_achievements sess req now utcnow db up)) = achievements db
            \<or> (\<exists>a. achievements (fst (submit_achievements sess req now utcnow db up)) = achievements db @ [a]
                    \<and> certificate_path a = None))"
proof (intro conjI)
  show "submit_achievements sess req now utcnow db up
           = submit_achievements sess (req\<lparr>files := (files req)(''certificate'' := None)\<rparr>) now utcnow db up"
    using assms by (simp add: submit_achievements_def cong: if_cong option.case_cong sum.case_cong)
  show "fst (snd (submit_achievements sess req now utcnow db up)) = up"
    using assms
    by (simp add: submit_achievements_def split: option.splits sum.splits)
  show "achievements (fst (submit_achievements sess req now utcnow db up)) = achievements db
            \<or> (\<exists>a. achievements (fst (submit_achievements sess req now utcnow db up)) = achievements db @ [a]
                    \<and> certificate_path a = None)"
    using assms
    by (auto simp: submit_achievements_def add_commit_def split: option.splits sum.splits if_splits)
qed


theorem empty_filename_as_no_file_witness:
  "submit_achievements teacher_session
      \<lparr>method = POST, form = sample_form, files = [''certificate'' \<mapsto> \<lparr>filename = [], stream = []\<rparr>]\<rparr>
      sample_now sample_now sample_db Map.empty
     = submit_achievements teacher_session
      (\<lparr>method = POST, form = sample_form, files = [''certificate'' \<mapsto> \<lparr>filename = [], stream = []\<rparr>]\<rparr>
         \<lparr>files := ([''certificate'' \<mapsto> \<lparr>filename = [], stream = []\<rparr>])(''certificate'' := None)\<rparr>)
      sample_now sample_now sample_db Map.empty
   \<and> map certificate_path (achievements (fst (submit_achievements teacher_session
      \<lparr>method = POST, form = sample_form, files = [''certificate'' \<mapsto> \<lparr>filename = [], stream = []\<rparr>]\<rparr>
      sample_now sample_now sample_db Map.empty))) = [None]"
proof -
  let ?file = "\<lparr>filename = [], stream = []\<rparr>"
  let ?req = "\<lparr>method = POST, form = sample_form, files = [''certificate'' \<mapsto> ?file]\<rparr>"
  have a: "files ?req ''certificate'' = Some ?file" by simp
  have b: "filename ?file = []" by simp
  have c: "map certificate_path (achievements (fst (submit_achievements teacher_session ?req
              sample_now sample_now sample_db Map.empty))) = [None]"
    by code_simp
  from empty_filename_as_no_file [OF a b, of teacher_session sample_now sample_now sample_db Map.empty] c
  show ?thesis by simp
qed


text \<open>
  C7. Under a teacher session, for an existing student and a certificate with a
  non-empty filename: the handler answers with the invalid-file-type message exactly
  when the filename has no final extension among pdf, png, jpg and jpeg (letter case
  ignored), and then nothing has changed. When the extension is allowed the file is
  stored under \<open>timestamp_sanitized-name\<close>, a row that is created records the path
  \<open>uploads/timestamp_sanitized-name\<close>, and the timestamp of a clock reading with a
  four-digit year is fourteen digits.
\<close>


theorem certificate_extension_gate:
  assumes "logged_in sess" and "truthy (session.teacher_id sess)" and "method req = POST"
    and "Student_first db (form req ''student_id'') = Inr (Some st)"
    and "files req ''certificate'' = Some file" and "filename file \<noteq> []"
  shows "(snd (snd (submit_achievements sess req now utcnow db up))
            = Inr (Render ''submit_achievements.html''
                     [(''error'', Msg ''Invalid file type. Please upload PDF, PNG, JPG, or JPEG files.'')])
          \<longleftrightarrow> \<not> (\<exists>stem ext. filename file = stem @ ''.'' @ ext \<and> CHR ''.'' \<notin> set ext
                              \<and> lower ext \<in> {''pdf'', ''png'', ''jpg'', ''jpeg''}))
       \<and> (\<not> (\<exists>stem ext. filename file = stem @ ''.'' @ ext \<and> CHR ''.'' \<notin> set ext
                              \<and> lower ext \<in> {''pdf'', ''png'', ''jpg'', ''jpeg''})
            \<longrightarrow> submit_achievements sess req now utcnow db up
                  = (db, up, Inr (Render ''submit_achievements.html''
                       [(''error'', Msg ''Invalid file type. Please upload PDF, PNG, JPG, or JPEG files.'')])))
       \<and> ((\<exists>stem ext. filename file = stem @ ''.'' @ ext \<and> CHR ''.'' \<notin> set ext
                              \<and> lower ext \<in> {''pdf'', ''png'', ''jpg'', ''jpeg''})
            \<longrightarrow> fst (snd (submit_achievements sess req now utcnow db up))
                  = up(strftime now @ ''_'' @ secure_filename (filename file) \<mapsto> stream file)
                \<and> (achievements (fst (submit_achievements sess req now utcnow db up)) = achievements db
                   \<or> (\<exists>a. achievements (fst (submit_achievements sess req now utcnow db up))
                             = achievements db @ [a]
                          \<and> certificate_path a
                              = Some (''uploads/'' @ strftime now @ ''_'' @ secure_filename (filename file)))))
       \<and> (valid_datetime now \<and> 1000 \<le> year now
            \<longrightarrow> length (strftime now) = 14 \<and> list_all is_digit (strftime now))"
proof -
  let ?ok = "\<exists>stem ext. filename file = stem @ ''.'' @ ext \<and> CHR ''.'' \<notin> set ext
                              \<and> lower ext \<in> {''pdf'', ''png'', ''jpg'', ''jpeg''}"
  have iff: "allowed_file (filename file) \<longleftrightarrow> ?ok"
    by (simp only: allowed_file_iff ALLOWED_EXTENSIONS_def)
  show ?thesis
  proof (cases "allowed_file (filename file)")
    case True
    with iff have ok: ?ok by simp
    note acc = submit_file_accepted [OF assms True, of now utcnow up]
    from acc(2) have "snd (snd (submit_achievements sess req now utcnow db up))
            \<noteq> Inr (Render ''submit_achievements.html''
                     [(''error'', Msg ''Invalid file type. Please upload PDF, PNG, JPG, or JPEG files.'')])"
      by (simp add: form_error_def)
    with ok acc(1) acc(3) strftime_14_digits [of now] show ?thesis by blast
  next
    case False
    with iff have no: "\<not> ?ok" by simp
    from submit_file_rejected [OF assms False, of now utcnow up]
    have "submit_achievements sess req now utcnow db up
                  = (db, up, Inr (Render ''submit_achievements.html''
                       [(''error'', Msg ''Invalid file type. Please upload PDF, PNG, JPG, or JPEG files.'')]))"
      by (simp add: form_error_def)
    with no strftime_14_digits [of now] show ?thesis by auto
  qed
qed

theorem certificate_extension_gate_witness:
  "(snd (snd (submit_achievements teacher_session
                \<lparr>method = POST, form = sample_form,
                 files = [''certificate'' \<mapsto> \<lparr>filename = ''evil.exe'', stream = ''MZ''\<rparr>]\<rparr>
                sample_now sample_now sample_db Map.empty))
      = Inr (Render ''submit_achievements.html''
               [(''error'', Msg ''Invalid file type. Please upload PDF, PNG, JPG, or JPEG files.'')]))
     = (\<not> (\<exists>stem ext. ''evil.exe'' = stem @ ''.'' @ ext \<and> CHR ''.'' \<notin> set ext
                         \<and> lower ext \<in> {''pdf'', ''png'', ''jpg'', ''jpeg''}))
   \<and> snd (snd (submit_achievements teacher_session
                \<lparr>method = POST, form = sample_form,
                 files = [''certificate'' \<mapsto> \<lparr>filename = ''evil.exe'', stream = ''MZ''\<rparr>]\<rparr>
                sample_now sample_now sample_db Map.empty))
      = Inr (Render ''submit_achievements.html''
               [(''error'', Msg ''Invalid file type. Please upload PDF, PNG, JPG, or JPEG files.'')])
   \<and> map certificate_path (achievements (fst (submit_achievements teacher_session
                \<lparr>method = POST, form = sample_form,
                 files = [''certificate'' \<mapsto> \<lparr>filename = ''My Cert.PDF'', stream = ''%PDF''\<rparr>]\<rparr>
                sample_now sample_now sample_db Map.empty)))
      = [Some ''uploads/20240301090507_My_Cert.PDF'']
   \<and> length (strftime sample_now) = 14"
proof -
  let ?file = "\<lparr>filename = ''evil.exe'', stream = ''MZ''\<rparr>"
  let ?req = "\<lparr>method = POST, form = sample_form, files = [''certificate'' \<mapsto> ?file]\<rparr>"
  have a: "logged_in teacher_session" "truthy (session.teacher_id teacher_session)"
    by (simp_all add: teacher_session_def no_session_def truthy_def)
  have b: "method ?req = POST" by simp
  have c: "Student_first sample_db (form ?req ''student_id'') = Inr (Some sample_student)"
    by (simp add: Student_first_def sample_db_def sample_student_def sample_form_def)
  have d: "files ?req ''certificate'' = Some ?file" "filename ?file \<noteq> []" by simp_all
  note gate = certificate_extension_gate [OF a b c d, of sample_now sample_now Map.empty]
  have e: "snd (snd (submit_achievements teacher_session ?req sample_now sample_now sample_db Map.empty))
      = Inr (Render ''submit_achievements.html''
               [(''error'', Msg ''Invalid file type. Please upload PDF, PNG, JPG, or JPEG files.'')])"
    by code_simp
  have f: "map certificate_path (achievements (fst (submit_achievements teacher_session
                \<lparr>method = POST, form = sample_form,
                 files = [''certificate'' \<mapsto> \<lparr>filename = ''My Cert.PDF'', stream = ''%PDF''\<rparr>]\<rparr>
                sample_now sample_now sample_db Map.empty)))
      = [Some ''uploads/20240301090507_My_Cert.PDF'']"
    by code_simp
  have g: "valid_datetime sample_now \<and> 1000 \<le> year sample_now"
    by (simp add: valid_datetime_def sample_now_def days_in_month_def)
  from gate g have h: "length (strftime sample_now) = 14" by blast
  from gate have i: "(snd (snd (submit_achievements teacher_session ?req sample_now sample_now sample_db Map.empty))
      = Inr (Render ''submit_achievements.html''
               [(''error'', Msg ''Invalid file type. Please upload PDF, PNG, JPG, or JPEG files.'')]))
     = (\<not> (\<exists>stem ext. ''evil.exe'' = stem @ ''.'' @ ext \<and> CHR ''.'' \<notin> set ext
                         \<and> lower ext \<in> {''pdf'', ''png'', ''jpg'', ''jpeg''}))"
    by simp
  from i e f h show ?thesis by blast
qed

text \<open>
  C2 (as amended). Under a teacher session and for an existing student, when the
  team size is absent, blank or an integer, the certificate (if any) has an allowed
  extension, and the submitted date is not empty and does not parse: the handler
  answers with the date-format message and the database is unchanged, so no
  Achievement is created. The uploads directory is unchanged when no named
  certificate is attached; otherwise it already holds the certificate, which the
  handler stores before it reads the date.
\<close>

theorem bad_date_rejected:
  assumes "logged_in sess" and "truthy (session.teacher_id sess)" and "method req = POST"
    and "Student_first db (form req ''student_id'') = Inr (Some st)"
    and "files req ''certificate'' = None
         \<or> (\<exists>f. files req ''certificate'' = Some f \<and> (filename f = [] \<or> allowed_file (filename f)))"
    and "form req ''team_size'' = None
         \<or> (\<exists>raw. form req ''team_size'' = Some raw \<and> (strip raw = [] \<or> (\<exists>n. py_int raw = Inr n)))"
    and "form req ''achievement_date'' = Some date_str" and "date_str \<noteq> []"
    and "strptime date_str = Inl e"
  shows "snd (snd (submit_achievements sess req now utcnow db up))
           = Inr (Render ''submit_achievements.html''
                    [(''error'', Msg ''Invalid date format. Please use YYYY-MM-DD.'')])
       \<and> fst (submit_achievements sess req now utcnow db up) = db
       \<and> fst (snd (submit_achievements sess req now utcnow db up))
           = (case files req ''certificate'' of
                None \<Rightarrow> up
              | Some f \<Rightarrow>
                  if filename f = [] then up
                  else up(strftime now @ ''_'' @ secure_filename (filename f) \<mapsto> stream f))"
proof -
  from assms(9) have e: "e = ValueError" by (rule strptime_error)
  from assms(2) obtain t where t: "session.teacher_id sess = Some t" "t \<noteq> []"
    by (auto simp: truthy_def split: option.splits)
  from assms(6) have team: "\<exists>ts. (case form req ''team_size'' of
              None \<Rightarrow> Inr None
            | Some team_size_raw \<Rightarrow>
                if team_size_raw \<noteq> [] \<and> strip team_size_raw \<noteq> []
                then (case py_int team_size_raw of Inl e \<Rightarrow> Inl e | Inr n \<Rightarrow> Inr (Some n))
                else Inr None) = Inr ts"
    by (auto split: option.splits)
  then obtain ts where ts: "(case form req ''team_size'' of
              None \<Rightarrow> Inr None
            | Some team_size_raw \<Rightarrow>
                if team_size_raw \<noteq> [] \<and> strip team_size_raw \<noteq> []
                then (case py_int team_size_raw of Inl e \<Rightarrow> Inl e | Inr n \<Rightarrow> Inr (Some n))
                else Inr None) = Inr ts" ..
  from assms(5) show ?thesis
  proof
    assume "files req ''certificate'' = None"
    with assms(1,3,4,7,8,9) t ts e show ?thesis
      by (simp add: submit_achievements_def form_error_def)
  next
    assume "\<exists>f. files req ''certificate'' = Some f \<and> (filename f = [] \<or> allowed_file (filename f))"
    then obtain f where f: "files req ''certificate'' = Some f" "filename f = [] \<or> allowed_file (filename f)"
      by blast
    show ?thesis
    proof (cases "filename f = []")
      case True
      with assms(1,3,4,7,8,9) t ts e f show ?thesis
        by (simp add: submit_achievements_def form_error_def)
    next
      case False
      with f have "allowed_file (filename f)" by simp
      with False assms(1,3,4,7,8,9) t ts e f show ?thesis
        by (simp add: submit_achievements_def form_error_def Let_def)
    qed
  qed
qed

theorem bad_date_rejected_witness:
  "snd (snd (submit_achievements teacher_session
                 \<lparr>method = POST, form = sample_form(''achievement_date'' \<mapsto> ''2024-13-40''),
                  files = [''certificate'' \<mapsto> \<lparr>filename = ''cert.pdf'', stream = ''%PDF''\<rparr>]\<rparr>
                 sample_now sample_now sample_db Map.empty))
       = Inr (Render ''submit_achievements.html''
                [(''error'', Msg ''Invalid date format. Please use YYYY-MM-DD.'')])
   \<and> fst (submit_achievements teacher_session
                 \<lparr>method = POST, form = sample_form(''achievement_date'' \<mapsto> ''2024-13-40''),
                  files = [''certificate'' \<mapsto> \<lparr>filename = ''cert.pdf'', stream = ''%PDF''\<rparr>]\<rparr>
                 sample_now sample_now sample_db Map.empty)
       = sample_db"
proof -
  let ?f = "\<lparr>filename = ''cert.pdf'', stream = ''%PDF''\<rparr>"
  let ?req = "\<lparr>method = POST, form = sample_form(''achievement_date'' \<mapsto> ''2024-13-40''),
               files = [''certificate'' \<mapsto> ?f]\<rparr>"
  have a: "logged_in teacher_session" "truthy (session.teacher_id teacher_session)"
    by (simp_all add: teacher_session_def no_session_def truthy_def)
  have b: "method ?req = POST" by simp
  have c: "Student_first sample_db (form ?req ''student_id'') = Inr (Some sample_student)"
    by (simp add: Student_first_def sample_db_def sample_student_def sample_form_def)
  have "allowed_file ''cert.pdf''" by code_simp
  then have d: "files ?req ''certificate'' = None
         \<or> (\<exists>f. files ?req ''certificate'' = Some f \<and> (filename f = [] \<or> allowed_file (filename f)))"
    by simp
  have e: "form ?req ''team_size'' = None
         \<or> (\<exists>raw. form ?req ''team_size'' = Some raw \<and> (strip raw = [] \<or> (\<exists>n. py_int raw = Inr n)))"
    by (simp add: sample_form_def)
  have f: "form ?req ''achievement_date'' = Some ''2024-13-40''" "''2024-13-40'' \<noteq> []" by simp_all
  have g: "strptime ''2024-13-40'' = Inl ValueError" by code_simp
  from bad_date_rejected [OF a b c d e f g, of sample_now sample_now Map.empty]
  show ?thesis by simp
qed

text \<open>
  The claim as stated (no certificate file is stored, no state changes) fails: with
  \<open>cert.pdf\<close> attached and the date \<open>2024-13-40\<close> the answer is the date-format
  message, and the uploads directory holds the file.
\<close>

theorem bad_date_stores_certificate:
  "strptime ''2024-13-40'' = Inl ValueError
   \<and> snd (snd (submit_achievements teacher_session
                 \<lparr>method = POST, form = sample_form(''achievement_date'' \<mapsto> ''2024-13-40''),
                  files = [''certificate'' \<mapsto> \<lparr>filename = ''cert.pdf'', stream = ''%PDF''\<rparr>]\<rparr>
                 sample_now sample_now sample_db Map.empty))
       = Inr (Render ''submit_achievements.html''
                [(''error'', Msg ''Invalid date format. Please use YYYY-MM-DD.'')])
   \<and> fst (snd (submit_achievements teacher_session
                 \<lparr>method = POST, form = sample_form(''achievement_date'' \<mapsto> ''2024-13-40''),
                  files = [''certificate'' \<mapsto> \<lparr>filename = ''cert.pdf'', stream = ''%PDF''\<rparr>]\<rparr>
                 sample_now sample_now sample_db Map.empty)) ''20240301090507_cert.pdf''
       = Some ''%PDF''
   \<and> fst (snd (submit_achievements teacher_session
                 \<lparr>method = POST, form = sample_form(''achievement_date'' \<mapsto> ''2024-13-40''),
                  files = [''certificate'' \<mapsto> \<lparr>filename = ''cert.pdf'', stream = ''%PDF''\<rparr>]\<rparr>
                 sample_now sample_now sample_db Map.empty))
       \<noteq> Map.empty"
proof -
  let ?R = "submit_achievements teacher_session
                 \<lparr>method = POST, form = sample_form(''achievement_date'' \<mapsto> ''2024-13-40''),
                  files = [''certificate'' \<mapsto> \<lparr>filename = ''cert.pdf'', stream = ''%PDF''\<rparr>]\<rparr>
                 sample_now sample_now sample_db Map.empty"
  have a: "strptime ''2024-13-40'' = Inl ValueError" by code_simp
  have b: "snd (snd ?R) = Inr (Render ''submit_achievements.html''
                [(''error'', Msg ''Invalid date format. Please use YYYY-MM-DD.'')])"
    by code_simp
  have c: "fst (snd ?R) ''20240301090507_cert.pdf'' = Some ''%PDF''" by code_simp
  then have d: "fst (snd ?R) \<noteq> Map.empty" by auto
  from a b c d show ?thesis by blast
qed

text \<open>
  C3. The handler parses \<open>team_size\<close> outside every \<^verbatim>\<open>try\<close>: on the value \<open>abc\<close> the
  ValueError of \<^verbatim>\<open>int\<close> leaves the handler, while the ValueError of the date parser
  next to it is caught and answered with a message.
\<close>

theorem unparsable_team_size_raises:
  "snd (snd (submit_achievements teacher_session
               \<lparr>method = POST, form = sample_form(''team_size'' \<mapsto> ''abc''), files = Map.empty\<rparr>
               sample_now sample_now sample_db Map.empty))
     = Inl ValueError
   \<and> snd (snd (submit_achievements teacher_session
               \<lparr>method = POST, form = sample_form(''achievement_date'' \<mapsto> ''2024-13-40''), files = Map.empty\<rparr>
               sample_now sample_now sample_db Map.empty))
     = Inr (Render ''submit_achievements.html''
              [(''error'', Msg ''Invalid date format. Please use YYYY-MM-DD.'')])"
  by code_simp

theorem unparsable_team_size_raises_witness:
  "\<forall>r. snd (snd (submit_achievements teacher_session
               \<lparr>method = POST, form = sample_form(''team_size'' \<mapsto> ''abc''), files = Map.empty\<rparr>
               sample_now sample_now sample_db Map.empty))
     \<noteq> Inr r"
  using unparsable_team_size_raises by simp

text \<open>A team size that is absent or blank is stored as absent in the row that is
  created.\<close>

lemma blank_team_size_stored_absent:
  assumes "form req ''team_size'' = None \<or> (\<exists>raw. form req ''team_size'' = Some raw \<and> strip raw = [])"
    and "achievements (fst (submit_achievements sess req now utcnow db up)) = achievements db @ [a]"
  shows "team_size a = None"
  using assms
  by (auto simp: submit_achievements_def add_commit_def Let_def
           split: option.splits sum.splits if_splits)

subsection \<open>Teacher dashboard and listing\<close>

text \<open>
  C1. The two teacher views test the flag \<open>logged_in\<close> only. The session a student
  login leaves behind passes that test: both views run their queries and render,
  while the submission handler, which also tests the teacher identifier, redirects
  the same session to the teacher login.
\<close>

theorem student_session_reaches_teacher_views:
  "fst (student sample_chk no_session
          \<lparr>method = POST, form = [''sname'' \<mapsto> ''S1'', ''password'' \<mapsto> ''secret''], files = Map.empty\<rparr>
          sample_db) = student_session
   \<and> teacher_dashboard student_session sample_now sample_db
       = Inr (Render ''teacher_dashboard.html''
                [(''teacher'', Identity None None None), (''stats'', Stats 0 0 0),
                 (''recent_entries'', Entries [])])
   \<and> all_achievements student_session sample_db
       = Inr (Render ''all_achievements.html'' [(''achievements'', Entries [])])
   \<and> snd (snd (submit_achievements student_session
                  \<lparr>method = GET, form = Map.empty, files = Map.empty\<rparr>
                  sample_now sample_now sample_db Map.empty))
       = Inr (Redirect ''teacher'' [])"
  by code_simp

theorem student_session_reaches_teacher_views_witness:
  "teacher_dashboard student_session sample_now sample_db \<noteq> Inr (Redirect ''teacher'' [])
   \<and> all_achievements student_session sample_db \<noteq> Inr (Redirect ''teacher'' [])"
  using student_session_reaches_teacher_views by simp


text \<open>A session without the flag, the empty session among them, is redirected by
  both views whatever the database holds.\<close>

lemma teacher_views_redirect_without_flag:
  assumes "\<not> logged_in sess"
  shows "teacher_dashboard sess now db = Inr (Redirect ''teacher'' [])"
    and "all_achievements sess db = Inr (Redirect ''teacher'' [])"
  using assms by (simp_all add: teacher_dashboard_def all_achievements_def)

text \<open>
  C4 (as amended). For every database that can be reached and every session with the
  flag set and teacher identifier \<open>T\<close>, the dashboard renders four aggregates over
  the achievements of \<open>T\<close>: their number; the number of distinct student
  identifiers among them; the number of those dated on or after the day seven days
  before the current date (later dates, future ones too, are counted); and the five
  most recently created, by creation time descending, rows of equal creation time in
  the order of insertion.
\<close>

theorem dashboard_aggregates:
  assumes "logged_in sess" and "connected db" and "session.teacher_id sess = Some T"
  shows "let mine = filter (\<lambda>a. Achievement.teacher_id a = T) (achievements db) in
         \<exists>recent.
           teacher_dashboard sess now db
             = Inr (Render ''teacher_dashboard.html''
                      [(''teacher'', Identity (Some T) (session.teacher_name sess) (session.teacher_dept sess)),
                       (''stats'',
                          Stats (length mine)
                                (card (Achievement.student_id ` set mine))
                                (length (filter (\<lambda>a. toordinal now - 7 \<le> toordinal (achievement_date a)) mine))),
                       (''recent_entries'', Entries recent)])
           \<and> length recent = min 5 (length mine)
           \<and> set recent \<subseteq> set mine
           \<and> sorted_wrt (\<lambda>a b. timestamp (created_at b) \<le> timestamp (created_at a)) recent
           \<and> (\<forall>a \<in> set mine. \<forall>b \<in> set recent.
                 a \<notin> set recent \<longrightarrow> timestamp (created_at a) \<le> timestamp (created_at b))
           \<and> (\<forall>k. \<exists>n. filter (\<lambda>a. timestamp (created_at a) = k) recent
                          = take n (filter (\<lambda>a. timestamp (created_at a) = k) mine))"
proof -
  define mine where "mine = filter (\<lambda>a. Achievement.teacher_id a = T) (achievements db)"
  define key :: "Achievement \<Rightarrow> int" where "key = (\<lambda>a. timestamp (created_at a))"
  define recent where "recent = take 5 (order_by_desc key mine)"
  have bt: "by_teacher (Some T) = (\<lambda>a. Achievement.teacher_id a = T)"
    by (auto simp: by_teacher_def fun_eq_iff)
  have 1: "teacher_dashboard sess now db
             = Inr (Render ''teacher_dashboard.html''
                      [(''teacher'', Identity (Some T) (session.teacher_name sess) (session.teacher_dept sess)),
                       (''stats'',
                          Stats (length mine)
                                (card (Achievement.student_id ` set mine))
                                (length (filter (\<lambda>a. toordinal now - 7 \<le> toordinal (achievement_date a)) mine))),
                       (''recent_entries'', Entries recent)])"
    using assms
    by (simp add: teacher_dashboard_def Let_def bt mine_def recent_def key_def
                  length_remdups_card_conv conj_commute)
  have 2: "length recent = min 5 (length mine)"
    by (simp add: recent_def order_by_desc_def min.commute)
  have 3: "set recent \<subseteq> set mine"
    using set_take_subset [of 5 "order_by_desc key mine"] by (simp add: recent_def order_by_desc_def)
  have 4: "sorted_wrt (\<lambda>a b. key b \<le> key a) recent"
    unfolding recent_def by (rule sorted_wrt_take) (rule order_by_desc_sorted)
  have 5: "\<forall>a \<in> set mine. \<forall>b \<in> set recent. a \<notin> set recent \<longrightarrow> key a \<le> key b"
    unfolding recent_def using take_order_by_desc_top [of _ mine 5 key] by blast
  have 6: "\<forall>k. \<exists>n. filter (\<lambda>a. key a = k) recent = take n (filter (\<lambda>a. key a = k) mine)"
  proof
    fix k
    from filter_take_prefix [of "\<lambda>a. key a = k" 5 "order_by_desc key mine"]
    show "\<exists>n. filter (\<lambda>a. key a = k) recent = take n (filter (\<lambda>a. key a = k) mine)"
      by (simp add: recent_def order_by_desc_stable)
  qed
  from 1 2 3 4 5 6 show ?thesis
    unfolding Let_def mine_def [symmetric] key_def by blast
qed

theorem dashboard_aggregates_witness:
  "\<exists>recent.
     teacher_dashboard teacher_session sample_now three_rows_db
       = Inr (Render ''teacher_dashboard.html''
                [(''teacher'', Identity (Some ''T1'') (Some ''Jane'') (Some ''CS'')),
                 (''stats'', Stats 3 2 3),
                 (''recent_entries'', Entries recent)])
     \<and> length recent = 3
     \<and> set recent \<subseteq> set (achievements three_rows_db)"
proof -
  let ?rows = "achievements three_rows_db"
  have h: "logged_in teacher_session" "connected three_rows_db"
    "session.teacher_id teacher_session = Some ''T1''"
    by (simp_all add: teacher_session_def no_session_def three_rows_db_def sample_db_def)
  have m: "filter (\<lambda>a. Achievement.teacher_id a = ''T1'') ?rows = ?rows"
    by (simp add: three_rows_db_def sample_row_def)
  have l: "length ?rows = 3" by (simp add: three_rows_db_def)
  have c: "card (Achievement.student_id ` set ?rows) = 2"
    by (simp add: three_rows_db_def sample_row_def card_insert_if)
  have w: "length (filter (\<lambda>a. toordinal sample_now - 7 \<le> toordinal (achievement_date a)) ?rows) = 3"
    by code_simp
  have n: "session.teacher_name teacher_session = Some ''Jane''"
    "session.teacher_dept teacher_session = Some ''CS''"
    by (simp_all add: teacher_session_def no_session_def)
  from dashboard_aggregates [OF h, of sample_now] show ?thesis
    unfolding Let_def m l c w n by auto
qed

text \<open>
  The third aggregate has no upper bound: an achievement dated the day after the
  request, which lies outside the trailing seven days, is counted.
\<close>

theorem future_date_counted_this_week:
  "teacher_dashboard teacher_session sample_now future_dated_db
     = Inr (Render ''teacher_dashboard.html''
              [(''teacher'', Identity (Some ''T1'') (Some ''Jane'') (Some ''CS'')),
               (''stats'', Stats 1 1 1),
               (''recent_entries'', Entries (achievements future_dated_db))])
   \<and> map achievement_date (achievements future_dated_db) = [\<lparr>year = 2024, month = 3, day = 2\<rparr>]
   \<and> map (in_trailing_week sample_now) (map achievement_date (achievements future_dated_db)) = [False]"
  by code_simp

end
